theory Spec2Isabelle
  imports Main
begin

section \<open>Machine integers of the driver\<close>

text \<open>
  The controller computes sizes in Go's \<open>int64\<close> (and \<open>int\<close>, which is 64 bits wide
  on the platforms the driver is built for). The values are modelled as \<open>int\<close>; every
  multiplication and addition of the source is followed by the two's-complement wrap-around
  \<open>wrap64\<close>, and Go's division, which truncates towards zero, is \<open>quo\<close>.
\<close>

definition is_int64 :: "int \<Rightarrow> bool" where
  "is_int64 x = (- (2 ^ 63) \<le> x \<and> x < 2 ^ 63)"

definition wrap64 :: "int \<Rightarrow> int" where
  "wrap64 x = (x + 2 ^ 63) mod 2 ^ 64 - 2 ^ 63"

text \<open>Go's \<open>a / b\<close> on signed integers, for a divisor that is not zero.\<close>

definition quo :: "int \<Rightarrow> int \<Rightarrow> int" where
  "quo a b = sgn a * sgn b * (\<bar>a\<bar> div \<bar>b\<bar>)"

text \<open>\<open>const ( _ = iota; KB = 1 << (10 * iota); MB; GB; TB )\<close>\<close>

definition KB :: int where "KB = 2 ^ 10"
definition MB :: int where "MB = 2 ^ 20"
definition GB :: int where "GB = 2 ^ 30"
definition TB :: int where "TB = 2 ^ 40"

definition SSDStepSizeGB :: int where "SSDStepSizeGB = 1"
definition BulkStepSizeGB :: int where "BulkStepSizeGB = 100"

section \<open>Capacity negotiation\<close>

text \<open>\<open>csi.CapacityRange\<close>: both fields are \<open>int64\<close>; a nil range is \<open>None\<close>.\<close>

record CapacityRange =
  RequiredBytes :: int
  LimitBytes :: int

text \<open>
  The three errors of \<open>calculateStorageGB\<close>. The source renders them as text through
  \<open>formatBytes\<close> (floating point); the model keeps the numbers the text is built from.
\<close>

datatype capacity_error =
    LimitLessThanRequired int int
  | LimitLessThanMinimum int string int
  | LimitLessThanRounded int int int string

definition calculateStorageGB :: "CapacityRange option \<Rightarrow> string \<Rightarrow> capacity_error + int" where
  "calculateStorageGB capRange storageType =
    (let sizeIncrements = (if storageType = ''bulk'' then BulkStepSizeGB else SSDStepSizeGB) in
     case capRange of
       None \<Rightarrow> Inr sizeIncrements
     | Some cr \<Rightarrow>
        (let requiredBytes = RequiredBytes cr;
             requiredSet = (0 < requiredBytes);
             limitBytes = LimitBytes cr;
             limitSet = (0 < limitBytes)
         in
         if \<not> requiredSet \<and> \<not> limitSet then Inr sizeIncrements
         else if requiredSet \<and> limitSet \<and> limitBytes < requiredBytes
           then Inl (LimitLessThanRequired limitBytes requiredBytes)
         else if limitSet \<and> limitBytes < wrap64 (sizeIncrements * GB)
           then Inl (LimitLessThanMinimum limitBytes storageType (wrap64 (sizeIncrements * GB)))
         else
          (let steps0 = quo (quo requiredBytes GB) sizeIncrements;
               steps = (if wrap64 (wrap64 (steps0 * GB) * sizeIncrements) < requiredBytes
                        then wrap64 (steps0 + 1) else steps0);
               sizeGB = wrap64 (steps * sizeIncrements)
           in
           if limitSet \<and> limitBytes < wrap64 (sizeGB * GB)
             then Inl (LimitLessThanRounded requiredBytes limitBytes (wrap64 (sizeGB * GB)) storageType)
           else Inr sizeGB)))"

text \<open>The allocation step the function uses for a storage type, in gigabytes.\<close>

definition stepGB :: "string \<Rightarrow> int" where
  "stepGB storageType = (if storageType = ''bulk'' then BulkStepSizeGB else SSDStepSizeGB)"

section \<open>Errors\<close>

text \<open>The gRPC codes the controller returns. A Go error that is no gRPC status reads as \<open>Unknown\<close>.\<close>

datatype code =
    OK | Unknown | InvalidArgument | NotFound | AlreadyExists | ResourceExhausted
  | Aborted | OutOfRange | Unimplemented | Internal

text \<open>
  An error of the backend client. \<open>*cloudscale.ErrorResponse\<close> carries the HTTP status code;
  any other Go error does not. The text that \<open>Error()\<close> returns belongs to the SDK and is
  carried by the value.
\<close>

datatype backend_error =
    ErrorResponse int string
  | OtherError string

fun Error_text :: "backend_error \<Rightarrow> string" where
  "Error_text (ErrorResponse sc txt) = txt"
| "Error_text (OtherError txt) = txt"

definition StatusNotFound :: int where "StatusNotFound = 404"

text \<open>Violations found by the capability checks; the source inserts their texts into a string set.\<close>

datatype violation =
    UnsupportedAccessMode int
  | UnsupportedAccessType
  | LuksWithBlock

text \<open>
  The text of an error is kept as the pieces the source builds it from: the literal or format
  string, then the values formatted into it. The formatting itself is not modelled.
\<close>

datatype piece =
    Lit string
  | Str string
  | Num int
  | Err backend_error
  | Cap capacity_error
  | Viol "violation set"

datatype rpc_error =
    Status code "piece list"
  | Errorf "piece list"
  | Backend backend_error

fun grpc_code :: "rpc_error + 'a \<Rightarrow> code" where
  "grpc_code (Inr r) = OK"
| "grpc_code (Inl (Status c m)) = c"
| "grpc_code (Inl (Errorf m)) = Unknown"
| "grpc_code (Inl (Backend e)) = Unknown"

section \<open>Messages of the storage interface\<close>

text \<open>\<open>csi.VolumeCapability_AccessMode_Mode\<close> is an integer enumeration.\<close>

definition SINGLE_NODE_WRITER :: int where "SINGLE_NODE_WRITER = 1"

datatype AccessType = Block | Mount string "string list"

text \<open>A capability: the access type (a oneof, possibly unset) and the access mode (possibly nil).\<close>

record VolumeCapability =
  AccessType :: "AccessType option"
  AccessMode :: "int option"

text \<open>\<open>cap.GetAccessMode().GetMode()\<close>: the zero value for a nil access mode.\<close>

definition GetMode :: "VolumeCapability \<Rightarrow> int" where
  "GetMode cap = (case AccessMode cap of None \<Rightarrow> 0 | Some m \<Rightarrow> m)"

record Topology =
  Segments :: "string \<rightharpoonup> string"

record TopologyRequirement =
  Requisite :: "Topology list"
  Preferred :: "Topology list"

record CreateVolumeRequest =
  Name :: string
  CapacityRange :: "CapacityRange option"
  VolumeCapabilities :: "VolumeCapability list"
  Parameters :: "string \<rightharpoonup> string"
  AccessibilityRequirements :: "TopologyRequirement option"

record csi_Volume =
  CapacityBytes :: int
  VolumeId :: string
  VolumeContext :: "string \<rightharpoonup> string"
  AccessibleTopology :: "Topology list"

record CreateVolumeResponse =
  Volume :: csi_Volume

record DeleteVolumeRequest =
  Delete_VolumeId :: string

datatype DeleteVolumeResponse = DeleteVolumeResponse

record ControllerPublishVolumeRequest =
  Publish_VolumeId :: string
  NodeId :: string
  Publish_VolumeCapability :: "VolumeCapability option"
  Readonly :: bool
  Publish_VolumeContext :: "string \<rightharpoonup> string"

record ControllerPublishVolumeResponse =
  PublishContext :: "string \<rightharpoonup> string"

record ControllerExpandVolumeRequest =
  Expand_VolumeId :: string
  Expand_CapacityRange :: "CapacityRange option"
  Expand_VolumeCapability :: "VolumeCapability option"

record ControllerExpandVolumeResponse =
  Expand_CapacityBytes :: int
  NodeExpansionRequired :: bool

text \<open>A Go map read at a key it does not hold gives the empty string.\<close>

definition lookup :: "(string \<rightharpoonup> string) \<Rightarrow> string \<Rightarrow> string" where
  "lookup m k = (case m k of None \<Rightarrow> [] | Some v \<Rightarrow> v)"

section \<open>The backend client\<close>

record cloudscale_Volume =
  UUID :: string
  Volume_Name :: string
  SizeGB :: int
  Volume_Type :: string
  ServerUUIDs :: "string list"

text \<open>\<open>cloudscale.VolumeRequest\<close>, with the fields the controller sets.\<close>

record VolumeRequest =
  Req_Name :: string
  Req_SizeGB :: int
  Req_Type :: string
  Req_Zone :: string
  Req_ServerUUIDs :: "string list option"

text \<open>
  \<open>d.cloudscaleClient.Volumes\<close> is an interface of the SDK. Its five operations are functions
  on the state \<open>'s\<close> of the remote store; \<open>List\<close> takes the name filter when one is given.
\<close>

record 's VolumeService =
  Volumes_List :: "string option \<Rightarrow> 's \<Rightarrow> (backend_error + cloudscale_Volume list) \<times> 's"
  Volumes_Get :: "string \<Rightarrow> 's \<Rightarrow> (backend_error + cloudscale_Volume) \<times> 's"
  Volumes_Create :: "VolumeRequest \<Rightarrow> 's \<Rightarrow> (backend_error + cloudscale_Volume) \<times> 's"
  Volumes_Update :: "string \<Rightarrow> VolumeRequest \<Rightarrow> 's \<Rightarrow> backend_error option \<times> 's"
  Volumes_Delete :: "string \<Rightarrow> 's \<Rightarrow> backend_error option \<times> 's"

text \<open>Every remote call is recorded, in order, beside the state of the store.\<close>

datatype call =
    ListCall "string option"
  | GetCall string
  | CreateCall VolumeRequest
  | UpdateCall string VolumeRequest
  | DeleteCall string

fun mutating :: "call \<Rightarrow> bool" where
  "mutating (ListCall f) = False"
| "mutating (GetCall i) = False"
| "mutating (CreateCall r) = True"
| "mutating (UpdateCall i r) = True"
| "mutating (DeleteCall i) = True"

type_synonym 's world = "'s \<times> call list"

text \<open>
  The driver. \<open>DriverName\<close> and the three LUKS attribute names are constants declared in files
  of the package that are not at hand; they are parameters of the model.
\<close>

record 's Driver =
  zone :: string
  cloudscaleClient :: "'s VolumeService"
  DriverName :: string
  LuksEncryptedAttribute :: string
  LuksCipherAttribute :: string
  LuksKeySizeAttribute :: string

definition PublishInfoVolumeName :: "'s Driver \<Rightarrow> string" where
  "PublishInfoVolumeName d = DriverName d @ ''/volume-name''"

definition StorageTypeAttribute :: "'s Driver \<Rightarrow> string" where
  "StorageTypeAttribute d = DriverName d @ ''/volume-type''"

definition call_List :: "'s Driver \<Rightarrow> string option \<Rightarrow> 's world \<Rightarrow> (backend_error + cloudscale_Volume list) \<times> 's world" where
  "call_List d f w =
    (case w of (s, tr) \<Rightarrow>
      (case Volumes_List (cloudscaleClient d) f s of (r, s') \<Rightarrow> (r, (s', tr @ [ListCall f]))))"

definition call_Get :: "'s Driver \<Rightarrow> string \<Rightarrow> 's world \<Rightarrow> (backend_error + cloudscale_Volume) \<times> 's world" where
  "call_Get d i w =
    (case w of (s, tr) \<Rightarrow>
      (case Volumes_Get (cloudscaleClient d) i s of (r, s') \<Rightarrow> (r, (s', tr @ [GetCall i]))))"

definition call_Create :: "'s Driver \<Rightarrow> VolumeRequest \<Rightarrow> 's world \<Rightarrow> (backend_error + cloudscale_Volume) \<times> 's world" where
  "call_Create d q w =
    (case w of (s, tr) \<Rightarrow>
      (case Volumes_Create (cloudscaleClient d) q s of (r, s') \<Rightarrow> (r, (s', tr @ [CreateCall q]))))"

definition call_Update :: "'s Driver \<Rightarrow> string \<Rightarrow> VolumeRequest \<Rightarrow> 's world \<Rightarrow> backend_error option \<times> 's world" where
  "call_Update d i q w =
    (case w of (s, tr) \<Rightarrow>
      (case Volumes_Update (cloudscaleClient d) i q s of (r, s') \<Rightarrow> (r, (s', tr @ [UpdateCall i q]))))"

definition call_Delete :: "'s Driver \<Rightarrow> string \<Rightarrow> 's world \<Rightarrow> backend_error option \<times> 's world" where
  "call_Delete d i w =
    (case w of (s, tr) \<Rightarrow>
      (case Volumes_Delete (cloudscaleClient d) i s of (r, s') \<Rightarrow> (r, (s', tr @ [DeleteCall i]))))"

section \<open>Capability validation\<close>

text \<open>
  Both functions collect their violations in a string set and return its elements; the model
  returns the set. The callers test it for emptiness and put it into the error text.
\<close>

definition validateCapabilities :: "VolumeCapability list \<Rightarrow> violation set" where
  "validateCapabilities caps =
    fold (\<lambda>cap violations.
      (let violations1 =
             (if GetMode cap \<noteq> SINGLE_NODE_WRITER
              then insert (UnsupportedAccessMode (GetMode cap)) violations else violations)
       in case AccessType cap of
            Some Block \<Rightarrow> violations1
          | Some (Mount fs flags) \<Rightarrow> violations1
          | None \<Rightarrow> insert UnsupportedAccessType violations1)) caps {}"

definition validateLuksCapabilities :: "VolumeCapability list \<Rightarrow> violation set" where
  "validateLuksCapabilities caps =
    fold (\<lambda>cap violations.
      (case AccessType cap of
         Some Block \<Rightarrow> insert LuksWithBlock violations
       | Some (Mount fs flags) \<Rightarrow> violations
       | None \<Rightarrow> violations)) caps {}"

section \<open>Error translation\<close>

text \<open>
  \<open>maxVolumesPerServerErrorMessageRe\<close> is the regular expression
  \<^verbatim>\<open>Due to internal limitations, it is currently not possible to attach more than \d+ volumes\<close>
  and \<open>MatchString\<close> looks for it anywhere in the text. \<open>\d\<close> is an ASCII digit. The character
  after the digits is a space, so a match at a position takes the whole run of digits there.
\<close>

definition attachLimitPrefix :: string where
  "attachLimitPrefix =
    ''Due to internal limitations, it is currently not possible to attach more than ''"

definition isDigit :: "char \<Rightarrow> bool" where
  "isDigit c = (c \<in> set ''0123456789'')"

definition matchHere :: "string \<Rightarrow> bool" where
  "matchHere s =
    (let rest = drop (length attachLimitPrefix) s in
     take (length attachLimitPrefix) s = attachLimitPrefix \<and>
     takeWhile isDigit rest \<noteq> [] \<and>
     take (length '' volumes'') (dropWhile isDigit rest) = '' volumes'')"

fun MatchString :: "string \<Rightarrow> bool" where
  "MatchString [] = matchHere []"
| "MatchString (c # cs) = (matchHere (c # cs) \<or> MatchString cs)"

definition reraiseNotFound :: "backend_error \<Rightarrow> string \<Rightarrow> rpc_error" where
  "reraiseNotFound err operation =
    (case err of
       ErrorResponse sc txt \<Rightarrow>
         if sc = StatusNotFound then Status NotFound [Err err]
         else Status Aborted [Lit (operation @ '': Request failed'')]
     | OtherError txt \<Rightarrow> Status Aborted [Lit (operation @ '': Random error'')])"

section \<open>The controller\<close>

text \<open>The loop of \<open>CreateVolume\<close> over the requisite topologies: the first zone that differs ends it.\<close>

fun checkZones :: "string \<Rightarrow> Topology list \<Rightarrow> rpc_error option" where
  "checkZones dzone [] = None"
| "checkZones dzone (t # ts) =
    (case Segments t ''zone'' of
       None \<Rightarrow> checkZones dzone ts
     | Some z \<Rightarrow>
         if z \<noteq> dzone
         then Some (Status ResourceExhausted
                 [Lit ''volume can be only created in zone: %q, got: %q'', Str dzone, Str z])
         else checkZones dzone ts)"

definition requisites :: "CreateVolumeRequest \<Rightarrow> Topology list" where
  "requisites req =
    (case AccessibilityRequirements req of None \<Rightarrow> [] | Some ar \<Rightarrow> Requisite ar)"

definition CreateVolume ::
  "'s Driver \<Rightarrow> CreateVolumeRequest \<Rightarrow> 's world \<Rightarrow> (rpc_error + CreateVolumeResponse) \<times> 's world" where
  "CreateVolume d req w =
    (if Name req = [] then
       (Inl (Status InvalidArgument [Lit ''CreateVolume Name must be provided'']), w)
     else if VolumeCapabilities req = [] then
       (Inl (Status InvalidArgument [Lit ''CreateVolume Volume capabilities must be provided'']), w)
     else if validateCapabilities (VolumeCapabilities req) \<noteq> {} then
       (Inl (Status InvalidArgument [Lit ''volume capabilities cannot be satisified: %s'',
               Viol (validateCapabilities (VolumeCapabilities req))]), w)
     else case checkZones (zone d) (requisites req) of
       Some e \<Rightarrow> (Inl e, w)
     | None \<Rightarrow>
      (let storageType0 = lookup (Parameters req) (StorageTypeAttribute d);
           storageType = (if storageType0 = [] then ''ssd'' else storageType0)
       in
       if storageType \<noteq> ''ssd'' \<and> storageType \<noteq> ''bulk'' then
         (Inl (Status InvalidArgument
            [Lit ''invalid volume type requested. Only 'ssd' or 'bulk' are supported'']), w)
       else case calculateStorageGB (CapacityRange req) storageType of
         Inl err \<Rightarrow> (Inl (Status InvalidArgument [Cap err]), w)
       | Inr sizeGB \<Rightarrow>
        (let volumeName = Name req;
             luksRequested = (lookup (Parameters req) (LuksEncryptedAttribute d) = ''true'')
         in
         if luksRequested \<and> validateLuksCapabilities (VolumeCapabilities req) \<noteq> {} then
           (Inl (Status InvalidArgument [Lit ''volume capabilities cannot be satisified: %s'',
                   Viol (validateLuksCapabilities (VolumeCapabilities req))]), w)
         else
          (let luksEncrypted = (if luksRequested then ''true'' else ''false'') in
           case call_List d (Some volumeName) w of
             (Inl err, w1) \<Rightarrow> (Inl (Status Internal [Err err]), w1)
           | (Inr volumes, w1) \<Rightarrow>
              (let context0 = [PublishInfoVolumeName d \<mapsto> volumeName,
                               LuksEncryptedAttribute d \<mapsto> luksEncrypted];
                   context1 =
                     (if luksEncrypted = ''true''
                      then context0
                             (LuksCipherAttribute d \<mapsto> lookup (Parameters req) (LuksCipherAttribute d),
                              LuksKeySizeAttribute d \<mapsto> lookup (Parameters req) (LuksKeySizeAttribute d))
                      else context0);
                   csiVolume = \<lparr>CapacityBytes = wrap64 (sizeGB * GB), VolumeId = [],
                                VolumeContext = context1,
                                AccessibleTopology = [\<lparr>Segments = [''zone'' \<mapsto> zone d]\<rparr>]\<rparr>
               in
               if length volumes \<noteq> 0 then
                 (if length volumes > 1 then
                    (Inl (Errorf [Lit ''fatal issue: duplicate volume %q exists'', Str volumeName]), w1)
                  else
                   (let vol = hd volumes in
                    if SizeGB vol \<noteq> sizeGB then
                      (Inl (Status AlreadyExists
                         [Lit ''invalid option requested size: %d'', Num sizeGB]), w1)
                    else
                      (Inr \<lparr>Volume = csiVolume\<lparr>VolumeId := UUID vol\<rparr>\<rparr>, w1)))
               else
                (let volumeReq = \<lparr>Req_Name = volumeName, Req_SizeGB = sizeGB,
                                   Req_Type = storageType, Req_Zone = zone d,
                                   Req_ServerUUIDs = None\<rparr>
                 in
                 case call_Create d volumeReq w1 of
                   (Inl err, w2) \<Rightarrow> (Inl (Status Internal [Err err]), w2)
                 | (Inr vol, w2) \<Rightarrow>
                     (Inr \<lparr>Volume = csiVolume\<lparr>VolumeId := UUID vol\<rparr>\<rparr>, w2)))))))"

definition DeleteVolume ::
  "'s Driver \<Rightarrow> DeleteVolumeRequest \<Rightarrow> 's world \<Rightarrow> (rpc_error + DeleteVolumeResponse) \<times> 's world" where
  "DeleteVolume d req w =
    (if Delete_VolumeId req = [] then
       (Inl (Status InvalidArgument [Lit ''DeleteVolume Volume ID must be provided'']), w)
     else case call_Delete d (Delete_VolumeId req) w of
       (Some err, w1) \<Rightarrow>
         (case err of
            ErrorResponse sc txt \<Rightarrow>
              if sc = StatusNotFound then (Inr DeleteVolumeResponse, w1)
              else (Inl (Backend err), w1)
          | OtherError txt \<Rightarrow> (Inl (Backend err), w1))
     | (None, w1) \<Rightarrow> (Inr DeleteVolumeResponse, w1))"

definition ControllerPublishVolume ::
  "'s Driver \<Rightarrow> ControllerPublishVolumeRequest \<Rightarrow> 's world \<Rightarrow>
     (rpc_error + ControllerPublishVolumeResponse) \<times> 's world" where
  "ControllerPublishVolume d req w =
    (if Publish_VolumeId req = [] then
       (Inl (Status InvalidArgument [Lit ''ControllerPublishVolume Volume ID must be provided'']), w)
     else if NodeId req = [] then
       (Inl (Status InvalidArgument [Lit ''ControllerPublishVolume Node ID must be provided'']), w)
     else if Publish_VolumeCapability req = None then
       (Inl (Status InvalidArgument
          [Lit ''ControllerPublishVolume Volume capability must be provided'']), w)
     else if Readonly req then
       (Inl (Status AlreadyExists [Lit ''read only Volumes are not supported'']), w)
     else
      (let attachRequest = \<lparr>Req_Name = [], Req_SizeGB = 0, Req_Type = [], Req_Zone = [],
                             Req_ServerUUIDs = Some [NodeId req]\<rparr>
       in
       case call_Update d (Publish_VolumeId req) attachRequest w of
         (Some err, w1) \<Rightarrow>
           if MatchString (Error_text err) then (Inl (Status ResourceExhausted [Err err]), w1)
           else (Inl (reraiseNotFound err ''attaching volume''), w1)
       | (None, w1) \<Rightarrow>
          (case call_Get d (Publish_VolumeId req) w1 of
             (Inl err, w2) \<Rightarrow> (Inl (reraiseNotFound err ''fetch volume''), w2)
           | (Inr volume, w2) \<Rightarrow>
               (Inr \<lparr>PublishContext =
                  [PublishInfoVolumeName d \<mapsto> Volume_Name volume,
                   LuksEncryptedAttribute d \<mapsto>
                     lookup (Publish_VolumeContext req) (LuksEncryptedAttribute d),
                   LuksCipherAttribute d \<mapsto>
                     lookup (Publish_VolumeContext req) (LuksCipherAttribute d),
                   LuksKeySizeAttribute d \<mapsto>
                     lookup (Publish_VolumeContext req) (LuksKeySizeAttribute d)]\<rparr>, w2))))"

definition ControllerExpandVolume ::
  "'s Driver \<Rightarrow> ControllerExpandVolumeRequest \<Rightarrow> 's world \<Rightarrow>
     (rpc_error + ControllerExpandVolumeResponse) \<times> 's world" where
  "ControllerExpandVolume d req w =
    (let volID = Expand_VolumeId req in
     if length volID = 0 then
       (Inl (Status InvalidArgument [Lit ''ControllerExpandVolume volume ID missing in request'']), w)
     else case call_Get d volID w of
       (Inl err, w1) \<Rightarrow>
         (Inl (Status Internal
            [Lit ''ControllerExpandVolume could not retrieve existing volume: %v'', Err err]), w1)
     | (Inr volume, w1) \<Rightarrow>
        (case calculateStorageGB (Expand_CapacityRange req) (Volume_Type volume) of
           Inl err \<Rightarrow>
             (Inl (Status OutOfRange
                [Lit ''ControllerExpandVolume invalid capacity range: %v'', Cap err]), w1)
         | Inr resizeGigaBytes \<Rightarrow>
            if resizeGigaBytes \<le> SizeGB volume then
              (Inr \<lparr>Expand_CapacityBytes = wrap64 (SizeGB volume * GB),
                    NodeExpansionRequired = True\<rparr>, w1)
            else
             (let volumeReq = \<lparr>Req_Name = [], Req_SizeGB = resizeGigaBytes, Req_Type = [],
                                Req_Zone = [], Req_ServerUUIDs = None\<rparr>
              in
              case call_Update d (UUID volume) volumeReq w1 of
                (Some err, w2) \<Rightarrow>
                  (Inl (Status Internal
                     [Lit ''cannot resize volume %s: %s'', Str volID, Str (Error_text err)]), w2)
              | (None, w2) \<Rightarrow>
                 (let nodeExpansionRequired =
                        (case Expand_VolumeCapability req of
                           None \<Rightarrow> True
                         | Some c \<Rightarrow>
                            (case AccessType c of
                               Some Block \<Rightarrow> False
                             | Some (Mount fs flags) \<Rightarrow> True
                             | None \<Rightarrow> True))
                  in
                  (Inr \<lparr>Expand_CapacityBytes = wrap64 (resizeGigaBytes * GB),
                        NodeExpansionRequired = nodeExpansionRequired\<rparr>, w2)))))"

text \<open>The storage type \<open>CreateVolume\<close> works with: the parameter, or \<open>ssd\<close> when it is empty.\<close>

definition storageTypeOf :: "'s Driver \<Rightarrow> CreateVolumeRequest \<Rightarrow> string" where
  "storageTypeOf d req =
     (if lookup (Parameters req) (StorageTypeAttribute d) = [] then ''ssd''
      else lookup (Parameters req) (StorageTypeAttribute d))"

text \<open>The requests \<open>ControllerExpandVolume\<close> and \<open>ControllerPublishVolume\<close> send to \<open>Update\<close>.\<close>

definition resizeRequest :: "int \<Rightarrow> VolumeRequest" where
  "resizeRequest n =
     \<lparr>Req_Name = [], Req_SizeGB = n, Req_Type = [], Req_Zone = [], Req_ServerUUIDs = None\<rparr>"

definition attachRequest :: "string \<Rightarrow> VolumeRequest" where
  "attachRequest node =
     \<lparr>Req_Name = [], Req_SizeGB = 0, Req_Type = [], Req_Zone = [], Req_ServerUUIDs = Some [node]\<rparr>"

section \<open>A backend with fixed answers\<close>

text \<open>
  A concrete store for evaluating the controller: every operation gives the answer it was
  set up with, and the state counts the mutating operations it has received.
\<close>

definition fixedClient ::
  "(backend_error + cloudscale_Volume list) \<Rightarrow> (backend_error + cloudscale_Volume) \<Rightarrow>
   (backend_error + cloudscale_Volume) \<Rightarrow> backend_error option \<Rightarrow> backend_error option \<Rightarrow>
   nat VolumeService" where
  "fixedClient onList onGet onCreate onUpdate onDelete =
    \<lparr>Volumes_List = (\<lambda>f s. (onList, s)),
     Volumes_Get = (\<lambda>i s. (onGet, s)),
     Volumes_Create = (\<lambda>q s. (onCreate, Suc s)),
     Volumes_Update = (\<lambda>i q s. (onUpdate, Suc s)),
     Volumes_Delete = (\<lambda>i s. (onDelete, Suc s))\<rparr>"

definition fixedDriver :: "nat VolumeService \<Rightarrow> nat Driver" where
  "fixedDriver c =
    \<lparr>zone = ''rma1'', cloudscaleClient = c, DriverName = ''csi.cloudscale.ch'',
     LuksEncryptedAttribute = ''csi.cloudscale.ch/luks-encrypted'',
     LuksCipherAttribute = ''csi.cloudscale.ch/luks-cipher'',
     LuksKeySizeAttribute = ''csi.cloudscale.ch/luks-key-size''\<rparr>"

section \<open>Sample inputs\<close>

text \<open>
  Requests, volumes and a driver to evaluate the controller on. The driver answers \<open>List\<close>
  with the given volumes, \<open>Get\<close> and \<open>Create\<close> with the first of them, and
  \<open>Update\<close> and \<open>Delete\<close> with the given answer.
\<close>

definition sampleCapability :: VolumeCapability where
  "sampleCapability = \<lparr>AccessType = Some (Mount ''ext4'' []), AccessMode = Some SINGLE_NODE_WRITER\<rparr>"

definition sampleCreateRequest :: "string \<Rightarrow> CreateVolumeRequest" where
  "sampleCreateRequest z =
    \<lparr>Name = ''pvc-1'',
     CapacityRange = Some \<lparr>RequiredBytes = 5 * GB, LimitBytes = 0\<rparr>,
     VolumeCapabilities = [sampleCapability],
     Parameters = Map.empty,
     AccessibilityRequirements = Some \<lparr>Requisite = [\<lparr>Segments = [''zone'' \<mapsto> z]\<rparr>], Preferred = []\<rparr>\<rparr>"

definition sampleVolume :: "int \<Rightarrow> cloudscale_Volume" where
  "sampleVolume n =
    \<lparr>UUID = ''vol-1'', Volume_Name = ''pvc-1'', SizeGB = n, Volume_Type = ''ssd'', ServerUUIDs = []\<rparr>"

fun firstOf :: "cloudscale_Volume list \<Rightarrow> backend_error + cloudscale_Volume" where
  "firstOf [] = Inl (ErrorResponse 404 ''detail: not found'')"
| "firstOf (v # vs) = Inr v"

definition sampleDriver :: "cloudscale_Volume list \<Rightarrow> backend_error option \<Rightarrow> nat Driver" where
  "sampleDriver vols answer =
     fixedDriver (fixedClient (Inr vols) (firstOf vols) (firstOf vols) answer answer)"

definition blockCapability :: VolumeCapability where
  "blockCapability = \<lparr>AccessType = Some Block, AccessMode = Some SINGLE_NODE_WRITER\<rparr>"

definition sampleExpandRequest :: "int \<Rightarrow> VolumeCapability option \<Rightarrow> ControllerExpandVolumeRequest" where
  "sampleExpandRequest n c =
    \<lparr>Expand_VolumeId = ''vol-1'',
     Expand_CapacityRange = Some \<lparr>RequiredBytes = n * GB, LimitBytes = 0\<rparr>,
     Expand_VolumeCapability = c\<rparr>"

definition samplePublishRequest :: ControllerPublishVolumeRequest where
  "samplePublishRequest =
    \<lparr>Publish_VolumeId = ''vol-1'', NodeId = ''node-1'',
     Publish_VolumeCapability = Some sampleCapability, Readonly = False,
     Publish_VolumeContext = Map.empty\<rparr>"

definition attachLimitText :: string where
  "attachLimitText = ''detail: Due to internal limitations, it is currently not possible to attach more than 128 volumes''"

section \<open>Arithmetic facts\<close>

lemma wrap64_id: "is_int64 x \<Longrightarrow> wrap64 x = x"
  by (simp add: wrap64_def is_int64_def)

lemma quo_nonneg: "0 \<le> a \<Longrightarrow> 0 < b \<Longrightarrow> quo a b = a div b"
  by (cases "a = 0") (simp_all add: quo_def)

lemma stepGB_bounds: "0 < stepGB t \<and> stepGB t \<le> 100"
  by (simp add: stepGB_def SSDStepSizeGB_def BulkStepSizeGB_def)

lemma calculateStorageGB_Inr_required:
  assumes "0 < RequiredBytes cr" and "calculateStorageGB (Some cr) t = Inr g"
  shows "g = (let steps0 = quo (quo (RequiredBytes cr) GB) (stepGB t);
              steps = (if wrap64 (wrap64 (steps0 * GB) * stepGB t) < RequiredBytes cr
                       then wrap64 (steps0 + 1) else steps0)
          in wrap64 (steps * stepGB t))"
  using assms by (simp add: calculateStorageGB_def stepGB_def Let_def split: if_splits)

lemma round_up_least:
  fixes r k G :: int
  assumes r: "0 < r" and k: "0 < k" and G: "0 < G"
  defines "q \<equiv> r div (G * k)"
  defines "g \<equiv> (if q * (G * k) < r then (q + 1) * k else q * k)"
  shows "k dvd g" and "r \<le> g * G" and "k dvd m \<Longrightarrow> r \<le> m * G \<Longrightarrow> g \<le> m"
proof -
  have Gk: "0 < G * k" using k G by simp
  have "0 \<le> r mod (G * k)" using Gk by simp
  then have lo: "q * (G * k) \<le> r"
    unfolding q_def using div_mult_mod_eq[of r "G * k"] by linarith
  have "r mod (G * k) < G * k" using Gk by simp
  then have hi: "r < (q + 1) * (G * k)"
    unfolding q_def using div_mult_mod_eq[of r "G * k"] by (simp add: algebra_simps)
  show "k dvd g" by (simp add: g_def)
  show "r \<le> g * G"
  proof (cases "q * (G * k) < r")
    case True
    then have "g = (q + 1) * k" by (simp add: g_def)
    then have geq: "g * G = (q + 1) * (G * k)" by (simp add: algebra_simps)
    show ?thesis using hi unfolding geq by linarith
  next
    case False
    then have "g = q * k" by (simp add: g_def)
    then have geq: "g * G = q * (G * k)" by (simp add: algebra_simps)
    show ?thesis using False lo unfolding geq by linarith
  qed
  show "g \<le> m" if dv: "k dvd m" and le: "r \<le> m * G"
  proof -
    from dv obtain j where m: "m = k * j" by (auto simp: dvd_def)
    show ?thesis
    proof (cases "q * (G * k) < r")
      case True
      then have "q * (G * k) < j * (G * k)" using le m by (simp add: algebra_simps)
      then have "q < j" using Gk by (simp add: mult_less_cancel_right)
      then have "q + 1 \<le> j" by simp
      then have "(q + 1) * k \<le> j * k" using k by (simp add: mult_right_mono)
      with True show ?thesis by (simp add: g_def m mult.commute)
    next
      case False
      with lo have eq: "q * (G * k) = r" by simp
      then have "q * (G * k) \<le> j * (G * k)" using le m by (simp add: algebra_simps)
      then have "q \<le> j" using Gk by (simp add: mult_le_cancel_right)
      then have "q * k \<le> j * k" using k by (simp add: mult_right_mono)
      with False show ?thesis by (simp add: g_def m mult.commute)
    qed
  qed
qed

lemma rounded_size:
  fixes r k :: int
  assumes r: "0 < r" and r64: "is_int64 r" and k: "0 < k" and k100: "k \<le> 100"
  defines "q \<equiv> r div (GB * k)"
  shows "(let steps0 = quo (quo r GB) k;
              steps = (if wrap64 (wrap64 (steps0 * GB) * k) < r then wrap64 (steps0 + 1) else steps0)
          in wrap64 (steps * k)) = (if q * (GB * k) < r then (q + 1) * k else q * k)"
proof -
  have G: "0 < GB" by (simp add: GB_def)
  have Gk: "0 < GB * k" using k G by simp
  have rlt: "r < 2 ^ 63" using r64 by (simp add: is_int64_def)
  have q0: "0 \<le> r div GB" using r G by (simp add: pos_imp_zdiv_nonneg_iff)
  have s0: "quo (quo r GB) k = q"
    using r G k q0 by (simp add: quo_nonneg q_def zdiv_zmult2_eq)
  have qn: "0 \<le> q" unfolding q_def using r Gk by (simp add: pos_imp_zdiv_nonneg_iff)
  have "0 \<le> r mod (GB * k)" using Gk by simp
  then have lo: "q * (GB * k) \<le> r"
    unfolding q_def using div_mult_mod_eq[of r "GB * k"] by linarith
  have qG: "q * GB \<le> q * (GB * k)"
    using qn k G by (simp add: mult_left_mono)
  have p1: "0 \<le> q * GB" using qn G by simp
  have p2: "0 \<le> q * (GB * k)" using qn Gk by simp
  have w1: "wrap64 (q * GB) = q * GB"
    using p1 qG lo rlt by (intro wrap64_id) (simp add: is_int64_def)
  have "is_int64 (q * (GB * k))" using p2 lo rlt by (simp add: is_int64_def)
  then have w2: "wrap64 (q * GB * k) = q * (GB * k)"
    by (simp add: wrap64_id mult.assoc)
  have rdiv: "r div GB < 2 ^ 33"
    using rlt G by (simp add: GB_def) 
  have qq: "q = r div GB div k" using k by (simp add: q_def zdiv_zmult2_eq)
  have "0 \<le> (r div GB) mod k" using k by simp
  then have qk: "q * k \<le> r div GB"
    unfolding qq using div_mult_mod_eq[of "r div GB" k] by linarith
  have p4: "0 \<le> q * k" using qn k by simp
  have "q * 1 \<le> q * k" using qn k by (intro mult_left_mono) simp_all
  then have qle: "q \<le> r div GB" using qk by simp
  have w3: "wrap64 (q + 1) = q + 1"
    using qn qle rdiv by (intro wrap64_id) (simp add: is_int64_def)
  have w4: "wrap64 (q * k) = q * k"
    using p4 qk rdiv by (intro wrap64_id) (simp add: is_int64_def)
  have w5: "wrap64 ((q + 1) * k) = (q + 1) * k"
  proof (rule wrap64_id)
    have "(q + 1) * k = q * k + k" by (simp add: algebra_simps)
    then have "(q + 1) * k < 2 ^ 33 + 100" using qk rdiv k100 by simp
    moreover have "0 \<le> (q + 1) * k" using qn k by (simp add: algebra_simps p4)
    ultimately show "is_int64 ((q + 1) * k)" by (simp add: is_int64_def)
  qed
  show ?thesis
    by (simp add: Let_def s0 w1 w2 w3 w4 w5)
qed

section \<open>Facts about the controller\<close>

lemma checkZones_mismatch:
  "t \<in> set ts \<Longrightarrow> Segments t ''zone'' = Some z \<Longrightarrow> z \<noteq> dzone \<Longrightarrow>
     \<exists>m. checkZones dzone ts = Some (Status ResourceExhausted m)"
  by (induction ts) (auto split: option.splits)

lemma checkZones_None_iff:
  "checkZones dzone ts = None \<longleftrightarrow> (\<forall>t \<in> set ts. \<forall>z. Segments t ''zone'' = Some z \<longrightarrow> z = dzone)"
  by (induction ts) (auto split: option.splits)

lemma CreateVolume_after_validation:
  assumes "Name req \<noteq> []"
    and "VolumeCapabilities req \<noteq> []"
    and "validateCapabilities (VolumeCapabilities req) = {}"
    and "\<forall>t \<in> set (requisites req). \<forall>z. Segments t ''zone'' = Some z \<longrightarrow> z = zone d"
    and "storageTypeOf d req = ''ssd'' \<or> storageTypeOf d req = ''bulk''"
    and "calculateStorageGB (CapacityRange req) (storageTypeOf d req) = Inr sizeGB"
    and "lookup (Parameters req) (LuksEncryptedAttribute d) = ''true'' \<longrightarrow>
           validateLuksCapabilities (VolumeCapabilities req) = {}"
    and "Volumes_List (cloudscaleClient d) (Some (Name req)) s = (Inr [vol], s')"
  shows "CreateVolume d req (s, tr) =
     (if SizeGB vol \<noteq> sizeGB
      then (Inl (Status AlreadyExists [Lit ''invalid option requested size: %d'', Num sizeGB]),
            (s', tr @ [ListCall (Some (Name req))]))
      else (Inr \<lparr>Volume = \<lparr>CapacityBytes = wrap64 (sizeGB * GB), VolumeId = UUID vol,
              VolumeContext =
                (if lookup (Parameters req) (LuksEncryptedAttribute d) = ''true''
                 then [PublishInfoVolumeName d \<mapsto> Name req, LuksEncryptedAttribute d \<mapsto> ''true'',
                   LuksCipherAttribute d \<mapsto> lookup (Parameters req) (LuksCipherAttribute d),
                   LuksKeySizeAttribute d \<mapsto> lookup (Parameters req) (LuksKeySizeAttribute d)]
                 else [PublishInfoVolumeName d \<mapsto> Name req, LuksEncryptedAttribute d \<mapsto> ''false'']),
              AccessibleTopology = [\<lparr>Segments = [''zone'' \<mapsto> zone d]\<rparr>]\<rparr>\<rparr>,
            (s', tr @ [ListCall (Some (Name req))])))"
proof -
  have z: "checkZones (zone d) (requisites req) = None"
    using assms(4) by (simp add: checkZones_None_iff)
  show ?thesis
    using assms(1-3,5-8) z
    by (auto simp add: CreateVolume_def call_List_def Let_def storageTypeOf_def)
qed

lemma sample_valid: "validateCapabilities [sampleCapability] = {}"
  by (simp add: validateCapabilities_def sampleCapability_def GetMode_def)

lemma sample_size: "calculateStorageGB (Some \<lparr>RequiredBytes = 5 * GB, LimitBytes = 0\<rparr>) ''ssd'' = Inr 5"
  by (simp add: calculateStorageGB_def wrap64_id is_int64_def quo_def GB_def SSDStepSizeGB_def)

text \<open>What \<open>MatchString\<close> accepts: the phrase, one or more digits and \<open> volumes\<close>, anywhere in the text.\<close>

lemma space_not_digit: "\<not> isDigit CHR '' ''"
  by (simp add: isDigit_def)

lemma split_at_match:
  "take n s = P \<Longrightarrow> take k (dropWhile Q (drop n s)) = V \<Longrightarrow>
     s = P @ takeWhile Q (drop n s) @ V @ drop k (dropWhile Q (drop n s))"
  by (metis append_take_drop_id takeWhile_dropWhile_id)

lemma matchHere_iff:
  "matchHere s \<longleftrightarrow>
     (\<exists>ds post. s = attachLimitPrefix @ ds @ '' volumes'' @ post \<and> ds \<noteq> [] \<and> (\<forall>c \<in> set ds. isDigit c))"
proof
  assume m: "matchHere s"
  let ?n = "length attachLimitPrefix"
  let ?rest = "drop ?n s"
  let ?ds = "takeWhile isDigit ?rest"
  let ?dw = "dropWhile isDigit ?rest"
  from m have p: "take ?n s = attachLimitPrefix" and d: "?ds \<noteq> []"
    and v: "take (length '' volumes'') ?dw = '' volumes''"
    by (simp_all add: matchHere_def Let_def)
  have "s = attachLimitPrefix @ ?ds @ '' volumes'' @ drop (length '' volumes'') ?dw"
    by (rule split_at_match[OF p v])
  moreover have "\<forall>c \<in> set ?ds. isDigit c" by (auto dest: set_takeWhileD)
  ultimately show "\<exists>ds post. s = attachLimitPrefix @ ds @ '' volumes'' @ post \<and> ds \<noteq> [] \<and> (\<forall>c \<in> set ds. isDigit c)"
    using d by blast
next
  assume "\<exists>ds post. s = attachLimitPrefix @ ds @ '' volumes'' @ post \<and> ds \<noteq> [] \<and> (\<forall>c \<in> set ds. isDigit c)"
  then obtain ds post where s: "s = attachLimitPrefix @ ds @ '' volumes'' @ post"
    and d: "ds \<noteq> []" and a: "\<forall>c \<in> set ds. isDigit c" by blast
  have tw: "takeWhile isDigit (ds @ CHR '' '' # r) = ds" for r
    using a by (simp add: takeWhile_append2 space_not_digit)
  have dw: "dropWhile isDigit (ds @ CHR '' '' # r) = CHR '' '' # r" for r
    using a by (simp add: dropWhile_append2 space_not_digit)
  show "matchHere s"
    unfolding matchHere_def Let_def s using d by (simp add: tw dw)
qed

lemma MatchString_suffix: "MatchString s \<longleftrightarrow> (\<exists>pre suf. s = pre @ suf \<and> matchHere suf)"
proof (induction s)
  case Nil
  then show ?case by simp
next
  case (Cons c cs)
  show ?case
  proof
    assume "MatchString (c # cs)"
    then consider "matchHere (c # cs)" | "MatchString cs" by auto
    then show "\<exists>pre suf. c # cs = pre @ suf \<and> matchHere suf"
    proof cases
      case 1
      then have "c # cs = [] @ (c # cs) \<and> matchHere (c # cs)" by simp
      then show ?thesis by blast
    next
      case 2
      with Cons.IH obtain pre suf where "cs = pre @ suf" "matchHere suf" by blast
      then have "c # cs = (c # pre) @ suf \<and> matchHere suf" by simp
      then show ?thesis by blast
    qed
  next
    assume "\<exists>pre suf. c # cs = pre @ suf \<and> matchHere suf"
    then obtain pre suf where e: "c # cs = pre @ suf" and m: "matchHere suf" by blast
    show "MatchString (c # cs)"
    proof (cases pre)
      case Nil
      with e have "suf = c # cs" by simp
      with m have "matchHere (c # cs)" by simp
      then show ?thesis by simp
    next
      case (Cons p ps)
      with e have "cs = ps @ suf" by simp
      with m Cons.IH have "MatchString cs" by blast
      then show ?thesis by simp
    qed
  qed
qed

lemma MatchString_iff:
  "MatchString s \<longleftrightarrow>
     (\<exists>pre ds post. s = pre @ attachLimitPrefix @ ds @ '' volumes'' @ post \<and>
        ds \<noteq> [] \<and> (\<forall>c \<in> set ds. isDigit c))"
  unfolding MatchString_suffix matchHere_iff by blast

section \<open>Claims about the capacity negotiation\<close>

text \<open>
  C8. Whenever the capacity range has a positive required minimum and
  \<open>calculateStorageGB\<close> succeeds, the size it returns is a multiple of the allocation
  step of the storage type, its byte value (a gigabyte being 1024 * 1024 * 1024 bytes) is at least the required bytes,
  and no smaller multiple of the step has that property. In particular 4 GiB on \<open>ssd\<close>
  gives 4 and 150 GiB on \<open>bulk\<close> gives 200.
\<close>

theorem calculateStorageGB_required_rounds_up:
  "(0 < RequiredBytes cr \<and> is_int64 (RequiredBytes cr) \<and>
    calculateStorageGB (Some cr) storageType = Inr g \<longrightarrow>
      stepGB storageType dvd g \<and> RequiredBytes cr \<le> g * GB \<and>
      (\<forall>m. stepGB storageType dvd m \<and> RequiredBytes cr \<le> m * GB \<longrightarrow> g \<le> m))
   \<and> calculateStorageGB (Some \<lparr>RequiredBytes = 4 * GB, LimitBytes = 0\<rparr>) ''ssd'' = Inr 4
   \<and> calculateStorageGB (Some \<lparr>RequiredBytes = 150 * GB, LimitBytes = 0\<rparr>) ''bulk'' = Inr 200"
proof (intro conjI impI)
  assume h: "0 < RequiredBytes cr \<and> is_int64 (RequiredBytes cr) \<and>
    calculateStorageGB (Some cr) storageType = Inr g"
  define r where "r = RequiredBytes cr"
  define k where "k = stepGB storageType"
  have r: "0 < r" "is_int64 r" using h by (simp_all add: r_def)
  have k: "0 < k" "k \<le> 100" using stepGB_bounds[of storageType] by (simp_all add: k_def)
  have G: "0 < GB" by (simp add: GB_def)
  have g: "g = (if r div (GB * k) * (GB * k) < r then (r div (GB * k) + 1) * k else r div (GB * k) * k)"
    using calculateStorageGB_Inr_required[of cr storageType g] h rounded_size[OF r k]
    by (simp add: r_def k_def)
  show "stepGB storageType dvd g"
    using round_up_least(1)[OF r(1) k(1) G] g by (simp add: k_def)
  show "RequiredBytes cr \<le> g * GB"
    using round_up_least(2)[OF r(1) k(1) G] g by (simp add: k_def r_def)
  show "\<forall>m. stepGB storageType dvd m \<and> RequiredBytes cr \<le> m * GB \<longrightarrow> g \<le> m"
    using round_up_least(3)[OF r(1) k(1) G] g by (simp add: k_def r_def)
next
  show "calculateStorageGB (Some \<lparr>RequiredBytes = 4 * GB, LimitBytes = 0\<rparr>) ''ssd'' = Inr 4"
    by (simp add: calculateStorageGB_def wrap64_id is_int64_def quo_def GB_def SSDStepSizeGB_def)
next
  show "calculateStorageGB (Some \<lparr>RequiredBytes = 150 * GB, LimitBytes = 0\<rparr>) ''bulk'' = Inr 200"
    by (simp add: calculateStorageGB_def wrap64_id is_int64_def quo_def GB_def BulkStepSizeGB_def)
qed

theorem calculateStorageGB_required_rounds_up_witness:
  "0 < RequiredBytes \<lparr>RequiredBytes = 150 * GB + 1, LimitBytes = 400 * GB\<rparr> \<and>
   is_int64 (RequiredBytes \<lparr>RequiredBytes = 150 * GB + 1, LimitBytes = 400 * GB\<rparr>) \<and>
   calculateStorageGB (Some \<lparr>RequiredBytes = 150 * GB + 1, LimitBytes = 400 * GB\<rparr>) ''bulk'' = Inr 200 \<and>
   stepGB ''bulk'' dvd 200 \<and> 150 * GB + 1 \<le> 200 * GB \<and>
   \<not> 150 * GB + 1 \<le> 100 * GB \<and>
   (stepGB ''bulk'' dvd 300 \<and> 150 * GB + 1 \<le> 300 * GB \<and> (200::int) \<le> 300)"
proof -
  have e: "calculateStorageGB (Some \<lparr>RequiredBytes = 150 * GB + 1, LimitBytes = 400 * GB\<rparr>) ''bulk'' = Inr 200"
    by (simp add: calculateStorageGB_def wrap64_id is_int64_def quo_def GB_def BulkStepSizeGB_def)
  have p: "0 < RequiredBytes \<lparr>RequiredBytes = 150 * GB + 1, LimitBytes = 400 * GB\<rparr> \<and>
   is_int64 (RequiredBytes \<lparr>RequiredBytes = 150 * GB + 1, LimitBytes = 400 * GB\<rparr>)"
    by (simp add: GB_def is_int64_def)
  from calculateStorageGB_required_rounds_up
     [of "\<lparr>RequiredBytes = 150 * GB + 1, LimitBytes = 400 * GB\<rparr>" "''bulk''" 200] e p
  have "stepGB ''bulk'' dvd 200 \<and> 150 * GB + 1 \<le> 200 * GB \<and>
      (\<forall>m. stepGB ''bulk'' dvd m \<and> 150 * GB + 1 \<le> m * GB \<longrightarrow> 200 \<le> m)"
    by simp
  then show ?thesis using e p by (simp add: GB_def stepGB_def BulkStepSizeGB_def)
qed

text \<open>
  C10. A capacity range whose required and limit bytes are both at most 0 (negative values
  included) gives one allocation step and no error, for every storage type: the result of
  a nil capacity range.
\<close>

theorem calculateStorageGB_nonpositive_bounds:
  "RequiredBytes cr \<le> 0 \<and> LimitBytes cr \<le> 0 \<longrightarrow>
     calculateStorageGB (Some cr) storageType = Inr (stepGB storageType) \<and>
     calculateStorageGB (Some cr) storageType = calculateStorageGB None storageType"
  by (simp add: calculateStorageGB_def stepGB_def)

theorem calculateStorageGB_nonpositive_bounds_witness:
  "RequiredBytes \<lparr>RequiredBytes = - 7, LimitBytes = 0\<rparr> \<le> 0 \<and>
   LimitBytes \<lparr>RequiredBytes = - 7, LimitBytes = 0\<rparr> \<le> 0 \<and>
   calculateStorageGB (Some \<lparr>RequiredBytes = - 7, LimitBytes = 0\<rparr>) ''bulk'' = Inr 100 \<and>
   calculateStorageGB None ''bulk'' = Inr 100"
  using calculateStorageGB_nonpositive_bounds [of "\<lparr>RequiredBytes = - 7, LimitBytes = 0\<rparr>" "''bulk''"]
  by (simp add: stepGB_def BulkStepSizeGB_def calculateStorageGB_def)

text \<open>
  C1. With only a limit set, the size returned for a limit of at least one step should be one
  allocation step. At a limit of 200 GiB and no required size on \<open>bulk\<close> storage the
  function returns 0 gigabytes: the rounding of the required bytes, which are 0, is returned
  without being raised to the minimum size.
\<close>

theorem calculateStorageGB_limit_only_returns_zero:
  "calculateStorageGB (Some \<lparr>RequiredBytes = 0, LimitBytes = 200 * GB\<rparr>) ''bulk'' = Inr 0"
  by (simp add: calculateStorageGB_def wrap64_id is_int64_def quo_def GB_def BulkStepSizeGB_def)

section \<open>Claims about the controller\<close>

text \<open>
  C2, as the code has it. A \<open>CreateVolume\<close> request with a name, with capabilities that are
  given and satisfiable, and with a requisite topology whose zone segment differs from the
  zone of the controller fails with \<open>ResourceExhausted\<close>; the store and the record of remote
  calls are what they were. (The claim names \<open>InvalidArgument\<close>; the counterexample below
  shows the code returned at such a request.)
\<close>

theorem CreateVolume_zone_mismatch:
  assumes "Name req \<noteq> []"
    and "VolumeCapabilities req \<noteq> []"
    and "validateCapabilities (VolumeCapabilities req) = {}"
    and "AccessibilityRequirements req = Some ar"
    and "t \<in> set (Requisite ar)"
    and "Segments t ''zone'' = Some z"
    and "z \<noteq> zone d"
  shows "grpc_code (fst (CreateVolume d req w)) = ResourceExhausted \<and> snd (CreateVolume d req w) = w"
proof -
  have "t \<in> set (requisites req)" using assms(4,5) by (simp add: requisites_def)
  from checkZones_mismatch[OF this assms(6,7)]
  obtain m where "checkZones (zone d) (requisites req) = Some (Status ResourceExhausted m)" ..
  then show ?thesis using assms(1-3) by (simp add: CreateVolume_def)
qed

theorem CreateVolume_zone_mismatch_witness:
  "Name (sampleCreateRequest ''lpg1'') \<noteq> [] \<and>
   VolumeCapabilities (sampleCreateRequest ''lpg1'') \<noteq> [] \<and>
   validateCapabilities (VolumeCapabilities (sampleCreateRequest ''lpg1'')) = {} \<and>
   grpc_code (fst (CreateVolume (sampleDriver [] None) (sampleCreateRequest ''lpg1'') (0, []))) = ResourceExhausted \<and>
   snd (CreateVolume (sampleDriver [] None) (sampleCreateRequest ''lpg1'') (0, [])) = (0, [])"
proof -
  have h1: "Name (sampleCreateRequest ''lpg1'') \<noteq> []" by (simp add: sampleCreateRequest_def)
  have h2: "VolumeCapabilities (sampleCreateRequest ''lpg1'') \<noteq> []" by (simp add: sampleCreateRequest_def)
  have h3: "validateCapabilities (VolumeCapabilities (sampleCreateRequest ''lpg1'')) = {}"
    by (simp add: sampleCreateRequest_def sample_valid)
  have h4: "AccessibilityRequirements (sampleCreateRequest ''lpg1'') =
      Some \<lparr>Requisite = [\<lparr>Segments = [''zone'' \<mapsto> ''lpg1'']\<rparr>], Preferred = []\<rparr>"
    by (simp add: sampleCreateRequest_def)
  have h5: "\<lparr>Segments = [''zone'' \<mapsto> ''lpg1'']\<rparr> \<in>
      set (Requisite \<lparr>Requisite = [\<lparr>Segments = [''zone'' \<mapsto> ''lpg1'']\<rparr>], Preferred = []\<rparr>)"
    by simp
  have h6: "Segments \<lparr>Segments = [''zone'' \<mapsto> ''lpg1'']\<rparr> ''zone'' = Some ''lpg1''" by simp
  have h7: "''lpg1'' \<noteq> zone (sampleDriver [] None)" by (simp add: sampleDriver_def fixedDriver_def)
  from CreateVolume_zone_mismatch[OF h1 h2 h3 h4 h5 h6 h7, of "(0, [])"] h1 h2 h3
  show ?thesis by simp
qed

theorem CreateVolume_zone_mismatch_counterexample:
  "Name (sampleCreateRequest ''lpg1'') \<noteq> [] \<and>
   validateCapabilities (VolumeCapabilities (sampleCreateRequest ''lpg1'')) = {} \<and>
   requisites (sampleCreateRequest ''lpg1'') = [\<lparr>Segments = [''zone'' \<mapsto> ''lpg1'']\<rparr>] \<and>
   zone (sampleDriver [] None) = ''rma1'' \<and>
   grpc_code (fst (CreateVolume (sampleDriver [] None) (sampleCreateRequest ''lpg1'') (0, []))) = ResourceExhausted \<and>
   grpc_code (fst (CreateVolume (sampleDriver [] None) (sampleCreateRequest ''lpg1'') (0, []))) \<noteq> InvalidArgument"
  by (simp add: sampleCreateRequest_def sample_valid requisites_def sampleDriver_def fixedDriver_def
        CreateVolume_def)

text \<open>
  C3. When a \<open>CreateVolume\<close> request passes validation and the lookup by name returns exactly
  one volume whose size is the negotiated size, the call succeeds with the identifier of that
  volume; the lookup is the only remote call, so no mutating call is added to the record.
\<close>

theorem CreateVolume_existing_same_size:
  assumes "Name req \<noteq> []"
    and "VolumeCapabilities req \<noteq> []"
    and "validateCapabilities (VolumeCapabilities req) = {}"
    and "\<forall>t \<in> set (requisites req). \<forall>z. Segments t ''zone'' = Some z \<longrightarrow> z = zone d"
    and "storageTypeOf d req = ''ssd'' \<or> storageTypeOf d req = ''bulk''"
    and "calculateStorageGB (CapacityRange req) (storageTypeOf d req) = Inr sizeGB"
    and "lookup (Parameters req) (LuksEncryptedAttribute d) = ''true'' \<longrightarrow>
           validateLuksCapabilities (VolumeCapabilities req) = {}"
    and "Volumes_List (cloudscaleClient d) (Some (Name req)) s = (Inr [vol], s')"
    and "SizeGB vol = sizeGB"
  shows "\<exists>resp. CreateVolume d req (s, tr) = (Inr resp, (s', tr @ [ListCall (Some (Name req))])) \<and>
           VolumeId (Volume resp) = UUID vol \<and>
           filter mutating (tr @ [ListCall (Some (Name req))]) = filter mutating tr"
  using CreateVolume_after_validation[OF assms(1-8), of tr] assms(9) by simp

theorem CreateVolume_existing_same_size_witness:
  "Name (sampleCreateRequest ''rma1'') \<noteq> [] \<and>
   VolumeCapabilities (sampleCreateRequest ''rma1'') \<noteq> [] \<and>
   validateCapabilities (VolumeCapabilities (sampleCreateRequest ''rma1'')) = {} \<and>
   requisites (sampleCreateRequest ''rma1'') = [\<lparr>Segments = [''zone'' \<mapsto> ''rma1'']\<rparr>] \<and>
   storageTypeOf (sampleDriver [sampleVolume 5] None) (sampleCreateRequest ''rma1'') = ''ssd'' \<and>
   calculateStorageGB (CapacityRange (sampleCreateRequest ''rma1'')) ''ssd'' = Inr 5 \<and>
   lookup (Parameters (sampleCreateRequest ''rma1'')) ''csi.cloudscale.ch/luks-encrypted'' = [] \<and>
   SizeGB (sampleVolume 5) = 5 \<and>
   (\<exists>resp. CreateVolume (sampleDriver [sampleVolume 5] None) (sampleCreateRequest ''rma1'') (0, []) =
            (Inr resp, (0, [ListCall (Some ''pvc-1'')])) \<and> VolumeId (Volume resp) = ''vol-1'')"
proof -
  let ?d = "sampleDriver [sampleVolume 5] None"
  let ?req = "sampleCreateRequest ''rma1''"
  have h1: "Name ?req \<noteq> []" by (simp add: sampleCreateRequest_def)
  have h2: "VolumeCapabilities ?req \<noteq> []" by (simp add: sampleCreateRequest_def)
  have h3: "validateCapabilities (VolumeCapabilities ?req) = {}"
    by (simp add: sampleCreateRequest_def sample_valid)
  have r: "requisites ?req = [\<lparr>Segments = [''zone'' \<mapsto> ''rma1'']\<rparr>]"
    by (simp add: sampleCreateRequest_def requisites_def)
  have h4: "\<forall>t \<in> set (requisites ?req). \<forall>z. Segments t ''zone'' = Some z \<longrightarrow> z = zone ?d"
    by (simp add: r sampleDriver_def fixedDriver_def)
  have st: "storageTypeOf ?d ?req = ''ssd''"
    by (simp add: storageTypeOf_def sampleCreateRequest_def lookup_def)
  have h5: "storageTypeOf ?d ?req = ''ssd'' \<or> storageTypeOf ?d ?req = ''bulk''" using st by simp
  have sz: "calculateStorageGB (CapacityRange ?req) ''ssd'' = Inr 5"
    by (simp add: sampleCreateRequest_def sample_size)
  have h6: "calculateStorageGB (CapacityRange ?req) (storageTypeOf ?d ?req) = Inr 5"
    using sz st by simp
  have lk: "lookup (Parameters ?req) ''csi.cloudscale.ch/luks-encrypted'' = []"
    by (simp add: sampleCreateRequest_def lookup_def)
  have h7: "lookup (Parameters ?req) (LuksEncryptedAttribute ?d) = ''true'' \<longrightarrow>
           validateLuksCapabilities (VolumeCapabilities ?req) = {}"
    by (simp add: sampleCreateRequest_def lookup_def)
  have h8: "Volumes_List (cloudscaleClient ?d) (Some (Name ?req)) 0 = (Inr [sampleVolume 5], 0)"
    by (simp add: sampleDriver_def fixedDriver_def fixedClient_def)
  have h9: "SizeGB (sampleVolume 5) = 5" by (simp add: sampleVolume_def)
  have n: "Name ?req = ''pvc-1''" by (simp add: sampleCreateRequest_def)
  have u: "UUID (sampleVolume 5) = ''vol-1''" by (simp add: sampleVolume_def)
  from CreateVolume_existing_same_size[OF h1 h2 h3 h4 h5 h6 h7 h8 h9, of "[]"]
  have "\<exists>resp. CreateVolume ?d ?req (0, []) = (Inr resp, (0, [ListCall (Some ''pvc-1'')])) \<and>
            VolumeId (Volume resp) = ''vol-1''"
    by (simp add: n u)
  then show ?thesis using h1 h2 h3 r st sz lk h9 by simp
qed

text \<open>
  C4. When a \<open>CreateVolume\<close> request passes validation and the lookup by name returns exactly
  one volume whose size differs from the negotiated size, the call fails with
  \<open>AlreadyExists\<close>; the lookup is the only remote call.
\<close>

theorem CreateVolume_existing_other_size:
  assumes "Name req \<noteq> []"
    and "VolumeCapabilities req \<noteq> []"
    and "validateCapabilities (VolumeCapabilities req) = {}"
    and "\<forall>t \<in> set (requisites req). \<forall>z. Segments t ''zone'' = Some z \<longrightarrow> z = zone d"
    and "storageTypeOf d req = ''ssd'' \<or> storageTypeOf d req = ''bulk''"
    and "calculateStorageGB (CapacityRange req) (storageTypeOf d req) = Inr sizeGB"
    and "lookup (Parameters req) (LuksEncryptedAttribute d) = ''true'' \<longrightarrow>
           validateLuksCapabilities (VolumeCapabilities req) = {}"
    and "Volumes_List (cloudscaleClient d) (Some (Name req)) s = (Inr [vol], s')"
    and "SizeGB vol \<noteq> sizeGB"
  shows "grpc_code (fst (CreateVolume d req (s, tr))) = AlreadyExists \<and>
         snd (CreateVolume d req (s, tr)) = (s', tr @ [ListCall (Some (Name req))]) \<and>
         filter mutating (tr @ [ListCall (Some (Name req))]) = filter mutating tr"
  using CreateVolume_after_validation[OF assms(1-8), of tr] assms(9) by simp

theorem CreateVolume_existing_other_size_witness:
  "Name (sampleCreateRequest ''rma1'') \<noteq> [] \<and>
   VolumeCapabilities (sampleCreateRequest ''rma1'') \<noteq> [] \<and>
   validateCapabilities (VolumeCapabilities (sampleCreateRequest ''rma1'')) = {} \<and>
   requisites (sampleCreateRequest ''rma1'') = [\<lparr>Segments = [''zone'' \<mapsto> ''rma1'']\<rparr>] \<and>
   storageTypeOf (sampleDriver [sampleVolume 10] None) (sampleCreateRequest ''rma1'') = ''ssd'' \<and>
   calculateStorageGB (CapacityRange (sampleCreateRequest ''rma1'')) ''ssd'' = Inr 5 \<and>
   lookup (Parameters (sampleCreateRequest ''rma1'')) ''csi.cloudscale.ch/luks-encrypted'' = [] \<and>
   SizeGB (sampleVolume 10) \<noteq> 5 \<and>
   grpc_code (fst (CreateVolume (sampleDriver [sampleVolume 10] None) (sampleCreateRequest ''rma1'') (0, []))) = AlreadyExists \<and>
   snd (CreateVolume (sampleDriver [sampleVolume 10] None) (sampleCreateRequest ''rma1'') (0, [])) =
     (0, [ListCall (Some ''pvc-1'')])"
proof -
  let ?d = "sampleDriver [sampleVolume 10] None"
  let ?req = "sampleCreateRequest ''rma1''"
  have h1: "Name ?req \<noteq> []" by (simp add: sampleCreateRequest_def)
  have h2: "VolumeCapabilities ?req \<noteq> []" by (simp add: sampleCreateRequest_def)
  have h3: "validateCapabilities (VolumeCapabilities ?req) = {}"
    by (simp add: sampleCreateRequest_def sample_valid)
  have r: "requisites ?req = [\<lparr>Segments = [''zone'' \<mapsto> ''rma1'']\<rparr>]"
    by (simp add: sampleCreateRequest_def requisites_def)
  have h4: "\<forall>t \<in> set (requisites ?req). \<forall>z. Segments t ''zone'' = Some z \<longrightarrow> z = zone ?d"
    by (simp add: r sampleDriver_def fixedDriver_def)
  have st: "storageTypeOf ?d ?req = ''ssd''"
    by (simp add: storageTypeOf_def sampleCreateRequest_def lookup_def)
  have h5: "storageTypeOf ?d ?req = ''ssd'' \<or> storageTypeOf ?d ?req = ''bulk''" using st by simp
  have sz: "calculateStorageGB (CapacityRange ?req) ''ssd'' = Inr 5"
    by (simp add: sampleCreateRequest_def sample_size)
  have h6: "calculateStorageGB (CapacityRange ?req) (storageTypeOf ?d ?req) = Inr 5"
    using sz st by simp
  have lk: "lookup (Parameters ?req) ''csi.cloudscale.ch/luks-encrypted'' = []"
    by (simp add: sampleCreateRequest_def lookup_def)
  have h7: "lookup (Parameters ?req) (LuksEncryptedAttribute ?d) = ''true'' \<longrightarrow>
           validateLuksCapabilities (VolumeCapabilities ?req) = {}"
    by (simp add: sampleCreateRequest_def lookup_def)
  have h8: "Volumes_List (cloudscaleClient ?d) (Some (Name ?req)) 0 = (Inr [sampleVolume 10], 0)"
    by (simp add: sampleDriver_def fixedDriver_def fixedClient_def)
  have h9: "SizeGB (sampleVolume 10) \<noteq> 5" by (simp add: sampleVolume_def)
  have n: "Name ?req = ''pvc-1''" by (simp add: sampleCreateRequest_def)
  from CreateVolume_existing_other_size[OF h1 h2 h3 h4 h5 h6 h7 h8 h9, of "[]"]
  have "grpc_code (fst (CreateVolume ?d ?req (0, []))) = AlreadyExists \<and>
        snd (CreateVolume ?d ?req (0, [])) = (0, [ListCall (Some ''pvc-1'')])"
    by (simp add: n)
  then show ?thesis using h1 h2 h3 r st sz lk h9 by simp
qed

text \<open>
  C5. In a \<open>DeleteVolume\<close> call with a volume identifier, a backend error that is an
  \<open>ErrorResponse\<close> with status 404 gives success with the empty response; every other
  backend error is returned as it is.
\<close>

theorem DeleteVolume_backend_error:
  assumes "Delete_VolumeId req \<noteq> []"
    and "Volumes_Delete (cloudscaleClient d) (Delete_VolumeId req) s = (Some err, s')"
  shows "((\<exists>txt. err = ErrorResponse 404 txt) \<longrightarrow>
            fst (DeleteVolume d req (s, tr)) = Inr DeleteVolumeResponse) \<and>
         (\<not> (\<exists>txt. err = ErrorResponse 404 txt) \<longrightarrow>
            fst (DeleteVolume d req (s, tr)) = Inl (Backend err))"
  using assms
  by (auto simp add: DeleteVolume_def call_Delete_def StatusNotFound_def split: backend_error.splits)

theorem DeleteVolume_backend_error_witness:
  "Delete_VolumeId \<lparr>Delete_VolumeId = ''vol-1''\<rparr> \<noteq> [] \<and>
   fst (DeleteVolume (sampleDriver [] (Some (ErrorResponse 404 ''detail: not found'')))
          \<lparr>Delete_VolumeId = ''vol-1''\<rparr> (0, [])) = Inr DeleteVolumeResponse \<and>
   fst (DeleteVolume (sampleDriver [] (Some (ErrorResponse 500 ''detail: server error'')))
          \<lparr>Delete_VolumeId = ''vol-1''\<rparr> (0, [])) =
     Inl (Backend (ErrorResponse 500 ''detail: server error''))"
proof -
  have h1: "Delete_VolumeId \<lparr>Delete_VolumeId = ''vol-1''\<rparr> \<noteq> []" by simp
  have h2: "Volumes_Delete (cloudscaleClient (sampleDriver [] (Some e)))
              (Delete_VolumeId \<lparr>Delete_VolumeId = ''vol-1''\<rparr>) 0 = (Some e, Suc 0)" for e
    by (simp add: sampleDriver_def fixedDriver_def fixedClient_def)
  from DeleteVolume_backend_error[OF h1 h2, of "ErrorResponse 404 ''detail: not found''" "[]"]
    DeleteVolume_backend_error[OF h1 h2, of "ErrorResponse 500 ''detail: server error''" "[]"]
  show ?thesis by simp
qed

text \<open>
  C6. In a \<open>ControllerExpandVolume\<close> call on a volume the backend returns, when the negotiated
  size is not greater than the size of the volume, the only remote call is the \<open>Get\<close>, and
  the response carries the size of the volume in bytes (\<open>int64(volume.SizeGB) * GB\<close>) with
  \<open>NodeExpansionRequired\<close> true, whatever capability the request carries.
\<close>

theorem ControllerExpandVolume_not_larger:
  assumes "Expand_VolumeId req \<noteq> []"
    and "Volumes_Get (cloudscaleClient d) (Expand_VolumeId req) s = (Inr volume, s')"
    and "calculateStorageGB (Expand_CapacityRange req) (Volume_Type volume) = Inr g"
    and "g \<le> SizeGB volume"
  shows "ControllerExpandVolume d req (s, tr) =
           (Inr \<lparr>Expand_CapacityBytes = wrap64 (SizeGB volume * GB), NodeExpansionRequired = True\<rparr>,
            (s', tr @ [GetCall (Expand_VolumeId req)])) \<and>
         (is_int64 (SizeGB volume * GB) \<longrightarrow> wrap64 (SizeGB volume * GB) = SizeGB volume * GB) \<and>
         filter mutating (tr @ [GetCall (Expand_VolumeId req)]) = filter mutating tr"
  using assms by (simp add: ControllerExpandVolume_def call_Get_def wrap64_id)

theorem ControllerExpandVolume_not_larger_witness:
  "Expand_VolumeId (sampleExpandRequest 5 (Some sampleCapability)) \<noteq> [] \<and>
   calculateStorageGB (Expand_CapacityRange (sampleExpandRequest 5 (Some sampleCapability)))
     (Volume_Type (sampleVolume 10)) = Inr 5 \<and>
   5 \<le> SizeGB (sampleVolume 10) \<and>
   ControllerExpandVolume (sampleDriver [sampleVolume 10] None)
       (sampleExpandRequest 5 (Some sampleCapability)) (0, []) =
     (Inr \<lparr>Expand_CapacityBytes = 10 * GB, NodeExpansionRequired = True\<rparr>, (0, [GetCall ''vol-1'']))"
proof -
  let ?req = "sampleExpandRequest 5 (Some sampleCapability)"
  let ?d = "sampleDriver [sampleVolume 10] None"
  have h1: "Expand_VolumeId ?req \<noteq> []" by (simp add: sampleExpandRequest_def)
  have h2: "Volumes_Get (cloudscaleClient ?d) (Expand_VolumeId ?req) 0 = (Inr (sampleVolume 10), 0)"
    by (simp add: sampleDriver_def fixedDriver_def fixedClient_def)
  have h3: "calculateStorageGB (Expand_CapacityRange ?req) (Volume_Type (sampleVolume 10)) = Inr 5"
    by (simp add: sampleExpandRequest_def sampleVolume_def sample_size)
  have h4: "5 \<le> SizeGB (sampleVolume 10)" by (simp add: sampleVolume_def)
  have i: "is_int64 (SizeGB (sampleVolume 10) * GB)" by (simp add: sampleVolume_def GB_def is_int64_def)
  have v: "Expand_VolumeId ?req = ''vol-1''" by (simp add: sampleExpandRequest_def)
  have sz: "SizeGB (sampleVolume 10) = 10" by (simp add: sampleVolume_def)
  from ControllerExpandVolume_not_larger[OF h1 h2 h3 h4, of "[]"] i
  have "ControllerExpandVolume ?d ?req (0, []) =
     (Inr \<lparr>Expand_CapacityBytes = 10 * GB, NodeExpansionRequired = True\<rparr>, (0, [GetCall ''vol-1'']))"
    by (simp add: v sz)
  then show ?thesis using h1 h3 h4 by simp
qed

text \<open>
  C7. In a \<open>ControllerExpandVolume\<close> call where the negotiated size exceeds the size of the
  volume and the resize succeeds, the response carries the new size in bytes
  (\<open>int64(resizeGigaBytes) * GB\<close>), and \<open>NodeExpansionRequired\<close> is false exactly when the
  request carries a capability with block access; it is true for mount access and for no
  capability.
\<close>

theorem ControllerExpandVolume_larger:
  assumes "Expand_VolumeId req \<noteq> []"
    and "Volumes_Get (cloudscaleClient d) (Expand_VolumeId req) s = (Inr volume, s1)"
    and "calculateStorageGB (Expand_CapacityRange req) (Volume_Type volume) = Inr g"
    and "SizeGB volume < g"
    and "Volumes_Update (cloudscaleClient d) (UUID volume) (resizeRequest g) s1 = (None, s2)"
  shows "\<exists>resp. fst (ControllerExpandVolume d req (s, tr)) = Inr resp \<and>
           Expand_CapacityBytes resp = wrap64 (g * GB) \<and>
           (is_int64 (g * GB) \<longrightarrow> Expand_CapacityBytes resp = g * GB) \<and>
           (NodeExpansionRequired resp = False \<longleftrightarrow>
              (\<exists>c. Expand_VolumeCapability req = Some c \<and> AccessType c = Some Block)) \<and>
           (Expand_VolumeCapability req = None \<longrightarrow> NodeExpansionRequired resp = True) \<and>
           (\<forall>c fs flags. Expand_VolumeCapability req = Some c \<and> AccessType c = Some (Mount fs flags) \<longrightarrow>
              NodeExpansionRequired resp = True)"
  using assms
  by (auto simp add: ControllerExpandVolume_def call_Get_def call_Update_def resizeRequest_def
        wrap64_id Let_def split: option.splits AccessType.splits)

theorem ControllerExpandVolume_larger_witness:
  "Expand_VolumeId (sampleExpandRequest 20 (Some blockCapability)) \<noteq> [] \<and>
   calculateStorageGB (Expand_CapacityRange (sampleExpandRequest 20 (Some blockCapability)))
     (Volume_Type (sampleVolume 10)) = Inr 20 \<and>
   SizeGB (sampleVolume 10) < 20 \<and>
   fst (ControllerExpandVolume (sampleDriver [sampleVolume 10] None)
       (sampleExpandRequest 20 (Some blockCapability)) (0, [])) =
     Inr \<lparr>Expand_CapacityBytes = 20 * GB, NodeExpansionRequired = False\<rparr> \<and>
   fst (ControllerExpandVolume (sampleDriver [sampleVolume 10] None)
       (sampleExpandRequest 20 (Some sampleCapability)) (0, [])) =
     Inr \<lparr>Expand_CapacityBytes = 20 * GB, NodeExpansionRequired = True\<rparr> \<and>
   fst (ControllerExpandVolume (sampleDriver [sampleVolume 10] None)
       (sampleExpandRequest 20 None) (0, [])) =
     Inr \<lparr>Expand_CapacityBytes = 20 * GB, NodeExpansionRequired = True\<rparr>"
proof -
  let ?d = "sampleDriver [sampleVolume 10] None"
  have e20: "calculateStorageGB (Some \<lparr>RequiredBytes = 20 * GB, LimitBytes = 0\<rparr>) ''ssd'' = Inr 20"
    by (simp add: calculateStorageGB_def wrap64_id is_int64_def quo_def GB_def SSDStepSizeGB_def)
  have h1: "Expand_VolumeId (sampleExpandRequest 20 c) \<noteq> []" for c
    by (simp add: sampleExpandRequest_def)
  have h2: "Volumes_Get (cloudscaleClient ?d) (Expand_VolumeId (sampleExpandRequest 20 c)) 0 =
      (Inr (sampleVolume 10), 0)" for c
    by (simp add: sampleDriver_def fixedDriver_def fixedClient_def)
  have h3: "calculateStorageGB (Expand_CapacityRange (sampleExpandRequest 20 c))
      (Volume_Type (sampleVolume 10)) = Inr 20" for c
    by (simp add: sampleExpandRequest_def sampleVolume_def e20)
  have h4: "SizeGB (sampleVolume 10) < 20" by (simp add: sampleVolume_def)
  have h5: "Volumes_Update (cloudscaleClient ?d) (UUID (sampleVolume 10)) (resizeRequest 20) 0 =
      (None, Suc 0)"
    by (simp add: sampleDriver_def fixedDriver_def fixedClient_def)
  have i: "is_int64 (20 * GB)" by (simp add: GB_def is_int64_def)
  have c1: "Expand_VolumeCapability (sampleExpandRequest 20 c) = c" for c
    by (simp add: sampleExpandRequest_def)
  have b: "AccessType blockCapability = Some Block" by (simp add: blockCapability_def)
  have m: "AccessType sampleCapability = Some (Mount ''ext4'' [])" by (simp add: sampleCapability_def)
  from ControllerExpandVolume_larger[OF h1 h2 h3 h4 h5, of "Some blockCapability" "[]"] i
  have r1: "fst (ControllerExpandVolume ?d (sampleExpandRequest 20 (Some blockCapability)) (0, [])) =
     Inr \<lparr>Expand_CapacityBytes = 20 * GB, NodeExpansionRequired = False\<rparr>"
    by (auto simp add: c1 b)
  from ControllerExpandVolume_larger[OF h1 h2 h3 h4 h5, of "Some sampleCapability" "[]"] i
  have r2: "fst (ControllerExpandVolume ?d (sampleExpandRequest 20 (Some sampleCapability)) (0, [])) =
     Inr \<lparr>Expand_CapacityBytes = 20 * GB, NodeExpansionRequired = True\<rparr>"
    by (auto simp add: c1 m)
  from ControllerExpandVolume_larger[OF h1 h2 h3 h4 h5, of None "[]"] i
  have r3: "fst (ControllerExpandVolume ?d (sampleExpandRequest 20 None) (0, [])) =
     Inr \<lparr>Expand_CapacityBytes = 20 * GB, NodeExpansionRequired = True\<rparr>"
    by (auto simp add: c1)
  show ?thesis using h1 h3 h4 r1 r2 r3 by simp
qed

text \<open>
  C9. In a \<open>ControllerPublishVolume\<close> call that passes validation, when the attach update
  fails with an error whose text matches the attach-limit expression, the call fails with
  \<open>ResourceExhausted\<close>, whatever kind of error it is and whatever status it carries.
\<close>

theorem ControllerPublishVolume_attach_limit:
  assumes "Publish_VolumeId req \<noteq> []"
    and "NodeId req \<noteq> []"
    and "Publish_VolumeCapability req \<noteq> None"
    and "\<not> Readonly req"
    and "Volumes_Update (cloudscaleClient d) (Publish_VolumeId req) (attachRequest (NodeId req)) s =
           (Some err, s')"
    and "MatchString (Error_text err)"
  shows "grpc_code (fst (ControllerPublishVolume d req (s, tr))) = ResourceExhausted"
  using assms
  by (simp add: ControllerPublishVolume_def call_Update_def attachRequest_def)

theorem ControllerPublishVolume_attach_limit_witness:
  "Publish_VolumeId samplePublishRequest \<noteq> [] \<and> NodeId samplePublishRequest \<noteq> [] \<and>
   Publish_VolumeCapability samplePublishRequest \<noteq> None \<and> \<not> Readonly samplePublishRequest \<and>
   MatchString (Error_text (ErrorResponse 404 attachLimitText)) \<and>
   grpc_code (Inl (reraiseNotFound (ErrorResponse 404 attachLimitText) ''attaching volume'') :: rpc_error + unit) = NotFound \<and>
   grpc_code (fst (ControllerPublishVolume
       (sampleDriver [] (Some (ErrorResponse 404 attachLimitText))) samplePublishRequest (0, []))) =
     ResourceExhausted \<and>
   MatchString (Error_text (OtherError attachLimitText)) \<and>
   grpc_code (fst (ControllerPublishVolume
       (sampleDriver [] (Some (OtherError attachLimitText))) samplePublishRequest (0, []))) =
     ResourceExhausted"
proof -
  have h1: "Publish_VolumeId samplePublishRequest \<noteq> []" by (simp add: samplePublishRequest_def)
  have h2: "NodeId samplePublishRequest \<noteq> []" by (simp add: samplePublishRequest_def)
  have h3: "Publish_VolumeCapability samplePublishRequest \<noteq> None" by (simp add: samplePublishRequest_def)
  have h4: "\<not> Readonly samplePublishRequest" by (simp add: samplePublishRequest_def)
  have h5: "Volumes_Update (cloudscaleClient (sampleDriver [] (Some e))) (Publish_VolumeId samplePublishRequest)
      (attachRequest (NodeId samplePublishRequest)) 0 = (Some e, Suc 0)" for e
    by (simp add: sampleDriver_def fixedDriver_def fixedClient_def)
  have mm: "MatchString attachLimitText" unfolding attachLimitText_def by code_simp
  have h6: "MatchString (Error_text (ErrorResponse 404 attachLimitText))" using mm by simp
  have h7: "MatchString (Error_text (OtherError attachLimitText))" using mm by simp
  have nf: "grpc_code (Inl (reraiseNotFound (ErrorResponse 404 attachLimitText) ''attaching volume'') :: rpc_error + unit) = NotFound"
    by (simp add: reraiseNotFound_def StatusNotFound_def)
  from ControllerPublishVolume_attach_limit[OF h1 h2 h3 h4 h5 h6, of "[]"]
    ControllerPublishVolume_attach_limit[OF h1 h2 h3 h4 h5 h7, of "[]"]
  show ?thesis using h1 h2 h3 h4 h6 h7 nf by simp
qed

end
